theory Spec2Isabelle
  imports Complex_Main
begin

section \<open>Data model\<close>

text \<open>
  The program is a command-line chat client (\<^verbatim>\<open>src/main.py\<close>, class
  \<^verbatim>\<open>AssistantManager\<close>). Everything it does is an effect on something outside the
  process: the remote assistant service, the wall clock, the tool handlers, the terminal and
  the file that stores the thread identifier. The model threads a world through every method
  and records each such effect, in program order, in a trace.

  An exception is represented by its text \<^verbatim>\<open>str(e)\<close>; only exceptions derived from
  \<^verbatim>\<open>Exception\<close> are modelled (the ones \<^verbatim>\<open>except Exception\<close> catches).
\<close>

type_synonym exn = string

record tool_call =
  call_id :: string
  function_name :: string
  function_arguments :: string

record tool_output =
  tool_call_id :: string
  output_text :: string

text \<open>
  What the program reads of a \<^verbatim>\<open>Run\<close>: its id, its status (a string, compared
  with string literals in the source) and the tool calls of its required action.
\<close>

record run =
  run_id :: string
  status :: string
  tool_calls :: "tool_call list"

text \<open>
  A message's content is a list of blocks; only a text block has \<^verbatim>\<open>.text.value\<close>.
\<close>

datatype content_block = TextBlock string | OtherBlock

record message =
  role :: string
  content :: "content_block list"

text \<open>The effects of the program, as they appear in the trace.\<close>

datatype event =
    ThreadsCreate
  | MessagesCreate string string
  | RunsCreate string string
  | RunsRetrieve string string
  | RunsList string
  | RunsCancel string string
  | SubmitToolOutputs string string "tool_output list"
  | MessagesList string
  | HandleToolCalls run
  | Sleep real
  | PrintSystemMessage string
  | PrintAssistantResponse string
  | ClearThreadId
  | SaveThreadId string

text \<open>
  The outside of the process, with a state of an arbitrary type \<open>'e\<close>: each operation may
  raise (\<open>Inl\<close>) or return (\<open>Inr\<close>) and leaves the outside in a new state. The fields are
  the calls of the source: \<^verbatim>\<open>time.time\<close>, \<^verbatim>\<open>time.sleep\<close>, the methods of
  \<^verbatim>\<open>client.beta.threads\<close>, and \<^verbatim>\<open>handle_tool_calls\<close> of the tools package, whose
  code is not part of the sources and is therefore a parameter. Time that passes is
  attributed to the operations; reading the clock does not change the state.
\<close>

record 'e environment =
  clock :: "'e \<Rightarrow> real"
  sleep :: "real \<Rightarrow> 'e \<Rightarrow> 'e"
  threads_create :: "'e \<Rightarrow> (exn + string) \<times> 'e"
  messages_create :: "string \<Rightarrow> string \<Rightarrow> 'e \<Rightarrow> (exn + unit) \<times> 'e"
  messages_list :: "string \<Rightarrow> 'e \<Rightarrow> (exn + message list) \<times> 'e"
  runs_create :: "string \<Rightarrow> string \<Rightarrow> 'e \<Rightarrow> (exn + run) \<times> 'e"
  runs_retrieve :: "string \<Rightarrow> string \<Rightarrow> 'e \<Rightarrow> (exn + run) \<times> 'e"
  runs_list :: "string \<Rightarrow> 'e \<Rightarrow> (exn + run list) \<times> 'e"
  runs_cancel :: "string \<Rightarrow> string \<Rightarrow> 'e \<Rightarrow> (exn + unit) \<times> 'e"
  submit_tool_outputs :: "string \<Rightarrow> string \<Rightarrow> tool_output list \<Rightarrow> 'e \<Rightarrow> (exn + run) \<times> 'e"
  handle_tool_calls :: "run \<Rightarrow> 'e \<Rightarrow> (exn + tool_output list) \<times> 'e"

text \<open>
  The world: the state of the outside, the trace so far, the attribute
  \<^verbatim>\<open>self.thread_id\<close> and the content of the thread-id file (\<open>None\<close>: no file).
\<close>

record 'e world =
  outside :: 'e
  trace :: "event list"
  thread_id :: string
  thread_file :: "string option"

text \<open>The world after the outside has moved to state \<open>e\<close> and the events \<open>evs\<close> have happened.\<close>

definition advance :: "'e \<Rightarrow> event list \<Rightarrow> 'e world \<Rightarrow> 'e world" where
  "advance e evs w = w\<lparr>outside := e, trace := trace w @ evs\<rparr>"

definition emit :: "event \<Rightarrow> 'e world \<Rightarrow> 'e world" where
  "emit ev w = w\<lparr>trace := trace w @ [ev]\<rparr>"

definition invoke :: "('e \<Rightarrow> 'a \<times> 'e) \<Rightarrow> event \<Rightarrow> 'e world \<Rightarrow> 'a \<times> 'e world" where
  "invoke op ev w = (case op (outside w) of (res, e') \<Rightarrow> (res, emit ev (w\<lparr>outside := e'\<rparr>)))"

definition print_system_message :: "string \<Rightarrow> 'e world \<Rightarrow> 'e world" where
  "print_system_message s w = emit (PrintSystemMessage s) w"

definition print_assistant_response :: "string \<Rightarrow> 'e world \<Rightarrow> 'e world" where
  "print_assistant_response s w = emit (PrintAssistantResponse s) w"

definition time_sleep :: "'e environment \<Rightarrow> real \<Rightarrow> 'e world \<Rightarrow> 'e world" where
  "time_sleep R d w = emit (Sleep d) (w\<lparr>outside := sleep R d (outside w)\<rparr>)"

definition time_time :: "'e environment \<Rightarrow> 'e world \<Rightarrow> real" where
  "time_time R w = clock R (outside w)"

subsection \<open>Thread store\<close>

text \<open>
  Modelled from the spec: \<^verbatim>\<open>clear_thread_id\<close> of \<^verbatim>\<open>tools.file_tools\<close>, whose code is
  not part of the sources. Section 4.3: ``\<^verbatim>\<open>clear()\<close> removes it''.
\<close>

definition clear_thread_id :: "'e world \<Rightarrow> 'e world" where
  "clear_thread_id w = emit ClearThreadId (w\<lparr>thread_file := None\<rparr>)"

text \<open>
  Modelled from the spec: \<^verbatim>\<open>save_thread_id\<close> of \<^verbatim>\<open>tools.file_tools\<close>, whose code is
  not part of the sources. Section 4.3: ``\<^verbatim>\<open>save(id)\<close> overwrites it''.
\<close>

definition save_thread_id :: "string \<Rightarrow> 'e world \<Rightarrow> 'e world" where
  "save_thread_id tid w = emit (SaveThreadId tid) (w\<lparr>thread_file := Some tid\<rparr>)"

section \<open>The methods of AssistantManager\<close>

subsection \<open>create_new_thread, reset_thread\<close>

definition create_new_thread :: "'e environment \<Rightarrow> 'e world \<Rightarrow> (exn + unit) \<times> 'e world" where
  "create_new_thread R w =
     (case invoke (threads_create R) ThreadsCreate w of
        (Inl e, w1) \<Rightarrow> (Inl e, w1)
      | (Inr tid, w1) \<Rightarrow>
          (Inr (), print_system_message ''New conversation thread created.''
                     (save_thread_id tid (w1\<lparr>thread_id := tid\<rparr>))))"

definition reset_thread :: "'e environment \<Rightarrow> 'e world \<Rightarrow> (exn + unit) \<times> 'e world" where
  "reset_thread R w =
     (case create_new_thread R (clear_thread_id w) of
        (Inl e, w1) \<Rightarrow> (Inl e, w1)
      | (Inr u, w1) \<Rightarrow> (Inr (), print_system_message ''Conversation thread has been reset.'' w1))"

subsection \<open>cancel_active_runs\<close>

text \<open>The \<^verbatim>\<open>for run in runs.data\<close> loop; a cancel that raises leaves the loop.\<close>

fun cancel_each :: "'e environment \<Rightarrow> run list \<Rightarrow> 'e world \<Rightarrow> (exn + unit) \<times> 'e world" where
  "cancel_each R [] w = (Inr (), w)"
| "cancel_each R (r # rs) w =
     (if status r \<in> {''queued'', ''in_progress''} then
        (case invoke (runs_cancel R (thread_id w) (run_id r)) (RunsCancel (thread_id w) (run_id r)) w of
           (Inl e, w1) \<Rightarrow> (Inl e, w1)
         | (Inr u, w1) \<Rightarrow> cancel_each R rs w1)
      else cancel_each R rs w)"

text \<open>The body of the \<^verbatim>\<open>try\<close> block of \<^verbatim>\<open>cancel_active_runs\<close>.\<close>

definition cancel_active_runs_try :: "'e environment \<Rightarrow> 'e world \<Rightarrow> (exn + unit) \<times> 'e world" where
  "cancel_active_runs_try R w =
     (case invoke (runs_list R (thread_id w)) (RunsList (thread_id w)) w of
        (Inl e, w1) \<Rightarrow> (Inl e, w1)
      | (Inr runs, w1) \<Rightarrow> cancel_each R runs w1)"

definition cancel_active_runs :: "'e environment \<Rightarrow> 'e world \<Rightarrow> (exn + unit) \<times> 'e world" where
  "cancel_active_runs R w =
     (case cancel_active_runs_try R w of
        (Inl e, w1) \<Rightarrow> (Inr (), print_system_message (''Error canceling runs: '' @ e) w1)
      | (Inr u, w1) \<Rightarrow> (Inr (), w1))"

subsection \<open>wait_for_completion\<close>

text \<open>How one pass through the body of the \<^verbatim>\<open>while\<close> loop ends.\<close>

datatype 'a flow = Return 'a | Raise exn | Next

text \<open>
  The body of the loop up to, and without, the final \<^verbatim>\<open>time.sleep(1)\<close>. An exception
  of \<^verbatim>\<open>runs.retrieve\<close> is outside the \<^verbatim>\<open>try\<close> and leaves the method; an exception
  of \<^verbatim>\<open>handle_tool_calls\<close> or of \<^verbatim>\<open>submit_tool_outputs\<close> is caught.
\<close>

definition wait_for_completion_body ::
  "'e environment \<Rightarrow> string \<Rightarrow> 'e world \<Rightarrow> run option flow \<times> 'e world" where
  "wait_for_completion_body R rid w =
     (case invoke (runs_retrieve R (thread_id w) rid) (RunsRetrieve (thread_id w) rid) w of
        (Inl e, w1) \<Rightarrow> (Raise e, w1)
      | (Inr r, w1) \<Rightarrow>
          if status r = ''completed'' then (Return (Some r), w1)
          else if status r = ''requires_action'' then
            (case invoke (handle_tool_calls R r) (HandleToolCalls r) w1 of
               (Inl e, w2) \<Rightarrow>
                 (Return None, print_system_message (''Error handling tool calls: '' @ e) w2)
             | (Inr outs, w2) \<Rightarrow>
                 if outs \<noteq> [] then
                   (case invoke (submit_tool_outputs R (thread_id w2) rid outs)
                                (SubmitToolOutputs (thread_id w2) rid outs) w2 of
                      (Inl e, w3) \<Rightarrow>
                        (Return None, print_system_message (''Error handling tool calls: '' @ e) w3)
                    | (Inr r', w3) \<Rightarrow> (Next, w3))
                 else (Next, w2))
          else if status r \<in> {''failed'', ''cancelled'', ''expired''} then
            (Return None, print_system_message (''Run ended with status: '' @ status r) w1)
          else (Next, w1))"

text \<open>
  The \<^verbatim>\<open>while\<close> loop. Nothing in the program bounds the number of passes: that the
  loop ends depends on the clock, so the loop is a partial function and \<open>None\<close> stands for
  a loop that never ends.
\<close>

partial_function (option) wait_for_completion_loop ::
  "'e environment \<Rightarrow> string \<Rightarrow> real \<Rightarrow> int \<Rightarrow> 'e world \<Rightarrow> ((exn + run option) \<times> 'e world) option" where
  "wait_for_completion_loop R rid start_time timeout w =
     (if time_time R w - start_time < real_of_int timeout then
        (case wait_for_completion_body R rid w of
           (Return res, w1) \<Rightarrow> Some (Inr res, w1)
         | (Raise e, w1) \<Rightarrow> Some (Inl e, w1)
         | (Next, w1) \<Rightarrow> wait_for_completion_loop R rid start_time timeout (time_sleep R 1 w1))
      else Some (Inr None, print_system_message ''Run timed out'' w))"

definition wait_for_completion ::
  "'e environment \<Rightarrow> string \<Rightarrow> int \<Rightarrow> 'e world \<Rightarrow> ((exn + run option) \<times> 'e world) option" where
  "wait_for_completion R rid timeout w =
     wait_for_completion_loop R rid (time_time R w) timeout w"

subsection \<open>process_user_input\<close>

text \<open>
  \<^verbatim>\<open>str.lower\<close> on the ASCII letters; the commands the program compares with are ASCII.
\<close>

definition lower_char :: "char \<Rightarrow> char" where
  "lower_char c = (let n = (of_char c :: nat) in if 65 \<le> n \<and> n \<le> 90 then char_of (n + 32) else c)"

definition lower :: "string \<Rightarrow> string" where
  "lower s = map lower_char s"

text \<open>
  Lines 82 to 96: cancel the active runs, post the message, create the run. The result is
  the created run, or the exception that \<^verbatim>\<open>messages.create\<close> or
  \<^verbatim>\<open>runs.create\<close> raised.
\<close>

definition process_user_input_start ::
  "'e environment \<Rightarrow> string \<Rightarrow> string \<Rightarrow> 'e world \<Rightarrow> (exn + run) \<times> 'e world" where
  "process_user_input_start R assistant_id user_input w =
     (case cancel_active_runs R w of
        (Inl e, w1) \<Rightarrow> (Inl e, w1)
      | (Inr u, w1) \<Rightarrow>
          (case invoke (messages_create R (thread_id w1) user_input)
                       (MessagesCreate (thread_id w1) user_input) w1 of
             (Inl e, w2) \<Rightarrow> (Inl e, w2)
           | (Inr u', w2) \<Rightarrow>
               invoke (runs_create R (thread_id w2) assistant_id)
                      (RunsCreate (thread_id w2) assistant_id) w2))"

text \<open>
  Lines 101 to 104: print the first assistant message. \<^verbatim>\<open>message.content[0]\<close>
  raises IndexError on an empty content, \<^verbatim>\<open>.text\<close> raises AttributeError on a block
  that is not a text block.
\<close>

fun print_first_assistant :: "message list \<Rightarrow> 'e world \<Rightarrow> (exn + unit) \<times> 'e world" where
  "print_first_assistant [] w = (Inr (), w)"
| "print_first_assistant (m # ms) w =
     (if role m = ''assistant'' then
        (case content m of
           [] \<Rightarrow> (Inl ''list index out of range'', w)
         | TextBlock v # bs \<Rightarrow> (Inr (), print_assistant_response v w)
         | OtherBlock # bs \<Rightarrow> (Inl ''object has no attribute text'', w))
      else print_first_assistant ms w)"

text \<open>
  The \<^verbatim>\<open>try\<close> block of \<^verbatim>\<open>process_user_input\<close>. \<open>Inr b\<close> is the value the
  method returns when the block does not raise: \<open>False\<close> on exit and quit, \<open>True\<close>
  otherwise (also through the final \<^verbatim>\<open>return True\<close>). The poller is called with its
  default timeout of 300.
\<close>

definition process_user_input_try ::
  "'e environment \<Rightarrow> string \<Rightarrow> string \<Rightarrow> 'e world \<Rightarrow> ((exn + bool) \<times> 'e world) option" where
  "process_user_input_try R assistant_id user_input w =
     (if lower user_input \<in> {''exit'', ''quit''} then
        Some (Inr False, print_system_message ''Goodbye!'' w)
      else if lower user_input = ''reset'' then
        (case reset_thread R w of
           (Inl e, w1) \<Rightarrow> Some (Inl e, w1)
         | (Inr u, w1) \<Rightarrow> Some (Inr True, w1))
      else
        (case process_user_input_start R assistant_id user_input w of
           (Inl e, w1) \<Rightarrow> Some (Inl e, w1)
         | (Inr r, w1) \<Rightarrow>
             (case wait_for_completion R (run_id r) 300 w1 of
                None \<Rightarrow> None
              | Some (Inl e, w2) \<Rightarrow> Some (Inl e, w2)
              | Some (Inr None, w2) \<Rightarrow> Some (Inr True, w2)
              | Some (Inr (Some completed_run), w2) \<Rightarrow>
                  (case invoke (messages_list R (thread_id w2)) (MessagesList (thread_id w2)) w2 of
                     (Inl e, w3) \<Rightarrow> Some (Inl e, w3)
                   | (Inr msgs, w3) \<Rightarrow>
                       (case print_first_assistant msgs w3 of
                          (Inl e, w4) \<Rightarrow> Some (Inl e, w4)
                        | (Inr u, w4) \<Rightarrow> Some (Inr True, w4))))))"

text \<open>
  The whole method: the \<^verbatim>\<open>except Exception\<close> handler prints twice and calls
  \<^verbatim>\<open>reset_thread\<close>; an exception raised there leaves the method.
\<close>

definition process_user_input ::
  "'e environment \<Rightarrow> string \<Rightarrow> string \<Rightarrow> 'e world \<Rightarrow> ((exn + bool) \<times> 'e world) option" where
  "process_user_input R assistant_id user_input w =
     (case process_user_input_try R assistant_id user_input w of
        None \<Rightarrow> None
      | Some (Inr b, w1) \<Rightarrow> Some (Inr b, w1)
      | Some (Inl e, w1) \<Rightarrow>
          (case reset_thread R
                  (print_system_message ''Starting a new conversation...''
                    (print_system_message (''An error occurred: '' @ e) w1)) of
             (Inl e', w2) \<Rightarrow> Some (Inl e', w2)
           | (Inr u, w2) \<Rightarrow> Some (Inr True, w2)))"

section \<open>Tool registry\<close>

text \<open>
  Modelled from the spec: \<^verbatim>\<open>handle_tool_calls\<close> of the tools package, whose code is
  not part of the sources. Section 4.2: it ``executes each by dispatching on tool name,
  parses/validates arguments, and returns a sequence of (call id, serialized output) pairs in
  the same order as the input calls. A tool whose name is unregistered, or whose handler
  raises, propagates as an error''. The registry maps a tool name to its handler; a handler
  takes the argument text and may change the outside.
\<close>

fun registry_execute ::
  "(string \<Rightarrow> (string \<Rightarrow> 'e \<Rightarrow> (exn + string) \<times> 'e) option) \<Rightarrow> tool_call list \<Rightarrow> 'e
     \<Rightarrow> (exn + tool_output list) \<times> 'e" where
  "registry_execute reg [] e = (Inr [], e)"
| "registry_execute reg (c # cs) e =
     (case reg (function_name c) of
        None \<Rightarrow> (Inl (''Unknown tool: '' @ function_name c), e)
      | Some h \<Rightarrow>
          (case h (function_arguments c) e of
             (Inl x, e1) \<Rightarrow> (Inl x, e1)
           | (Inr out, e1) \<Rightarrow>
               (case registry_execute reg cs e1 of
                  (Inl x, e2) \<Rightarrow> (Inl x, e2)
                | (Inr outs, e2) \<Rightarrow>
                    (Inr (\<lparr>tool_call_id = call_id c, output_text = out\<rparr> # outs), e2))))"

definition registry_handle_tool_calls ::
  "(string \<Rightarrow> (string \<Rightarrow> 'e \<Rightarrow> (exn + string) \<times> 'e) option) \<Rightarrow> run \<Rightarrow> 'e
     \<Rightarrow> (exn + tool_output list) \<times> 'e" where
  "registry_handle_tool_calls reg r e = registry_execute reg (tool_calls r) e"

section \<open>Passes of the polling loop\<close>

text \<open>
  The world after \<open>n\<close> passes of the loop of \<^verbatim>\<open>wait_for_completion\<close> that all reach
  the \<^verbatim>\<open>time.sleep(1)\<close> at the end of the body; \<open>None\<close> when one of the first \<open>n\<close>
  passes does not start (time is up) or leaves the method.
\<close>

fun passes ::
  "'e environment \<Rightarrow> string \<Rightarrow> real \<Rightarrow> int \<Rightarrow> nat \<Rightarrow> 'e world \<Rightarrow> 'e world option" where
  "passes R rid start_time timeout 0 w = Some w"
| "passes R rid start_time timeout (Suc n) w =
     (if time_time R w - start_time < real_of_int timeout then
        (case wait_for_completion_body R rid w of
           (Next, w1) \<Rightarrow> passes R rid start_time timeout n (time_sleep R 1 w1)
         | (Return res, w1) \<Rightarrow> None
         | (Raise e, w1) \<Rightarrow> None)
      else None)"

text \<open>
  A pass from world \<open>w\<close> stays pending: the fetch succeeds with a status that is none of
  completed, failed, cancelled, expired, and handling the tool calls of a
  \<^verbatim>\<open>requires_action\<close> status raises nothing.
\<close>

definition stays_pending :: "'e environment \<Rightarrow> string \<Rightarrow> 'e world \<Rightarrow> bool" where
  "stays_pending R rid w =
     (case runs_retrieve R (thread_id w) rid (outside w) of
        (Inl x, e1) \<Rightarrow> False
      | (Inr r, e1) \<Rightarrow>
          status r \<notin> {''completed'', ''failed'', ''cancelled'', ''expired''} \<and>
          (status r = ''requires_action'' \<longrightarrow>
             (case handle_tool_calls R r e1 of
                (Inl x, e2) \<Rightarrow> False
              | (Inr outs, e2) \<Rightarrow>
                  outs = [] \<or>
                  (case submit_tool_outputs R (thread_id w) rid outs e2 of
                     (Inl x, e3) \<Rightarrow> False
                   | (Inr r', e3) \<Rightarrow> True))))"

text \<open>
  What the loop needs of the clock: it never runs backwards over the calls the loop makes,
  and \<^verbatim>\<open>time.sleep(1)\<close> takes at least one time unit.
\<close>

definition clock_advances :: "'e environment \<Rightarrow> bool" where
  "clock_advances R \<longleftrightarrow>
     (\<forall>e. clock R e + 1 \<le> clock R (sleep R 1 e)) \<and>
     (\<forall>t rid e. clock R e \<le> clock R (snd (runs_retrieve R t rid e))) \<and>
     (\<forall>r e. clock R e \<le> clock R (snd (handle_tool_calls R r e))) \<and>
     (\<forall>t rid outs e. clock R e \<le> clock R (snd (submit_tool_outputs R t rid outs e)))"

section \<open>Traces of the polling loop\<close>





section \<open>Scripted environments\<close>

text \<open>
  A small family of environments for concrete runs of the model. The state of the outside is
  the time alone. The parameters are the answer of \<^verbatim>\<open>runs.retrieve\<close> as a function
  of the time of the call, and the answers of \<^verbatim>\<open>handle_tool_calls\<close>,
  \<^verbatim>\<open>threads.create\<close>, \<^verbatim>\<open>messages.create\<close> and \<^verbatim>\<open>runs.list\<close>. Only
  sleeping takes time; cancelling the run named \<open>run_bad\<close> raises.
\<close>

definition mk_run :: "string \<Rightarrow> string \<Rightarrow> run" where
  "mk_run rid st = \<lparr>run_id = rid, status = st, tool_calls = []\<rparr>"

definition scripted ::
  "(real \<Rightarrow> exn + run) \<Rightarrow> (exn + tool_output list) \<Rightarrow> (exn + string) \<Rightarrow> (exn + unit)
     \<Rightarrow> (exn + run list) \<Rightarrow> real environment" where
  "scripted answer tools thread post listing =
     \<lparr>clock = (\<lambda>t. t),
      sleep = (\<lambda>d t. t + d),
      threads_create = (\<lambda>t. (thread, t)),
      messages_create = (\<lambda>tid text t. (post, t)),
      messages_list = (\<lambda>tid t. (Inr [\<lparr>role = ''user'', content = [TextBlock ''hello'']\<rparr>,
                                       \<lparr>role = ''assistant'', content = [TextBlock ''hi'']\<rparr>], t)),
      runs_create = (\<lambda>tid aid t. (Inr (mk_run ''run_new'' ''queued''), t)),
      runs_retrieve = (\<lambda>tid rid t. (answer t, t)),
      runs_list = (\<lambda>tid t. (listing, t)),
      runs_cancel = (\<lambda>tid rid t. (if rid = ''run_bad'' then Inl ''cannot cancel'' else Inr (), t)),
      submit_tool_outputs = (\<lambda>tid rid outs t. (Inr (mk_run rid ''queued''), t)),
      handle_tool_calls = (\<lambda>r t. (tools, t))\<rparr>"

definition initial :: "real world" where
  "initial = \<lparr>outside = 0, trace = [], thread_id = ''thread_old'', thread_file = Some ''thread_old''\<rparr>"

text \<open>A registry with the single tool \<open>add\<close>, and a run that asks for it twice.\<close>

definition calculator :: "string \<Rightarrow> (string \<Rightarrow> real \<Rightarrow> (exn + string) \<times> real) option" where
  "calculator name = (if name = ''add'' then Some (\<lambda>args t. (Inr (''sum of '' @ args), t)) else None)"

definition asking :: run where
  "asking = \<lparr>run_id = ''run_new'', status = ''requires_action'',
             tool_calls = [\<lparr>call_id = ''call_1'', function_name = ''add'', function_arguments = ''2 2''\<rparr>,
                           \<lparr>call_id = ''call_2'', function_name = ''add'', function_arguments = ''3 4''\<rparr>]\<rparr>"

section \<open>Basic facts\<close>

subsection \<open>Unfolding\<close>

lemmas world_defs = advance_def emit_def invoke_def print_system_message_def
  print_assistant_response_def time_sleep_def time_time_def clear_thread_id_def save_thread_id_def

lemmas scripted_defs = scripted_def initial_def mk_run_def

lemmas poller_defs = wait_for_completion_def wait_for_completion_loop.simps
  wait_for_completion_body_def

lemmas turn_defs = process_user_input_start_def cancel_active_runs_def cancel_active_runs_try_def

lemma lower_hello: "lower ''hello'' = ''hello''"
  by code_simp


subsection \<open>One pass of the loop\<close>

lemma body_completed:
  "runs_retrieve R (thread_id w) rid (outside w) = (Inr r, e1) \<Longrightarrow> status r = ''completed'' \<Longrightarrow>
   wait_for_completion_body R rid w = (Return (Some r), advance e1 [RunsRetrieve (thread_id w) rid] w)"
  by (simp add: wait_for_completion_body_def world_defs)

lemma body_ended:
  "runs_retrieve R (thread_id w) rid (outside w) = (Inr r, e1) \<Longrightarrow>
   status r \<in> {''failed'', ''cancelled'', ''expired''} \<Longrightarrow>
   wait_for_completion_body R rid w =
     (Return None, advance e1 [RunsRetrieve (thread_id w) rid,
                               PrintSystemMessage (''Run ended with status: '' @ status r)] w)"
  by (auto simp add: wait_for_completion_body_def world_defs)

lemma body_tool_error:
  "runs_retrieve R (thread_id w) rid (outside w) = (Inr r, e1) \<Longrightarrow>
   status r = ''requires_action'' \<Longrightarrow> handle_tool_calls R r e1 = (Inl x, e2) \<Longrightarrow>
   wait_for_completion_body R rid w =
     (Return None, advance e2 [RunsRetrieve (thread_id w) rid, HandleToolCalls r,
                               PrintSystemMessage (''Error handling tool calls: '' @ x)] w)"
  by (simp add: wait_for_completion_body_def world_defs)

lemma body_no_outputs:
  "runs_retrieve R (thread_id w) rid (outside w) = (Inr r, e1) \<Longrightarrow>
   status r = ''requires_action'' \<Longrightarrow> handle_tool_calls R r e1 = (Inr [], e2) \<Longrightarrow>
   wait_for_completion_body R rid w =
     (Next, advance e2 [RunsRetrieve (thread_id w) rid, HandleToolCalls r] w)"
  by (simp add: wait_for_completion_body_def world_defs)

lemma body_submit:
  "runs_retrieve R (thread_id w) rid (outside w) = (Inr r, e1) \<Longrightarrow>
   status r = ''requires_action'' \<Longrightarrow> handle_tool_calls R r e1 = (Inr outs, e2) \<Longrightarrow>
   outs \<noteq> [] \<Longrightarrow> submit_tool_outputs R (thread_id w) rid outs e2 = (res, e3) \<Longrightarrow>
   wait_for_completion_body R rid w =
     (case res of
        Inl x \<Rightarrow> (Return None, advance e3 [RunsRetrieve (thread_id w) rid, HandleToolCalls r,
                     SubmitToolOutputs (thread_id w) rid outs,
                     PrintSystemMessage (''Error handling tool calls: '' @ x)] w)
      | Inr r' \<Rightarrow> (Next, advance e3 [RunsRetrieve (thread_id w) rid, HandleToolCalls r,
                     SubmitToolOutputs (thread_id w) rid outs] w))"
  by (simp add: wait_for_completion_body_def world_defs split: sum.splits)

lemma stays_pending_body:
  "stays_pending R rid w \<longleftrightarrow> fst (wait_for_completion_body R rid w) = Next"
  by (auto simp add: stays_pending_def wait_for_completion_body_def world_defs
           split: prod.splits sum.splits)



subsection \<open>The loop\<close>

lemma loop_next:
  "time_time R w - s < real_of_int t \<Longrightarrow> wait_for_completion_body R rid w = (Next, w1) \<Longrightarrow>
   wait_for_completion_loop R rid s t w = wait_for_completion_loop R rid s t (time_sleep R 1 w1)"
  by (subst wait_for_completion_loop.simps) simp

lemma loop_return:
  "time_time R w - s < real_of_int t \<Longrightarrow> wait_for_completion_body R rid w = (Return res, w1) \<Longrightarrow>
   wait_for_completion_loop R rid s t w = Some (Inr res, w1)"
  by (subst wait_for_completion_loop.simps) simp

lemma loop_raise:
  "time_time R w - s < real_of_int t \<Longrightarrow> wait_for_completion_body R rid w = (Raise x, w1) \<Longrightarrow>
   wait_for_completion_loop R rid s t w = Some (Inl x, w1)"
  by (subst wait_for_completion_loop.simps) simp

lemma loop_timeout:
  "\<not> time_time R w - s < real_of_int t \<Longrightarrow>
   wait_for_completion_loop R rid s t w = Some (Inr None, print_system_message ''Run timed out'' w)"
  by (subst wait_for_completion_loop.simps) simp

lemma passes_loop:
  "passes R rid s t n w = Some w' \<Longrightarrow>
   wait_for_completion_loop R rid s t w = wait_for_completion_loop R rid s t w'"
proof (induction n arbitrary: w)
  case 0
  then show ?case by simp
next
  case (Suc n)
  from Suc.prems have in_time: "time_time R w - s < real_of_int t"
    by (simp split: if_splits)
  from Suc.prems in_time obtain w1 where
    body: "wait_for_completion_body R rid w = (Next, w1)" and
    rest: "passes R rid s t n (time_sleep R 1 w1) = Some w'"
    by (auto split: prod.splits flow.splits)
  from loop_next [OF in_time body] Suc.IH [OF rest] show ?case by simp
qed



subsection \<open>The clock and the end of the loop\<close>

lemma clock_retrieve:
  "clock_advances R \<Longrightarrow> runs_retrieve R t rid e = (a, e1) \<Longrightarrow> clock R e \<le> clock R e1"
  unfolding clock_advances_def by (metis snd_conv)

lemma clock_handle:
  "clock_advances R \<Longrightarrow> handle_tool_calls R r e = (a, e1) \<Longrightarrow> clock R e \<le> clock R e1"
  unfolding clock_advances_def by (metis snd_conv)

lemma clock_submit:
  "clock_advances R \<Longrightarrow> submit_tool_outputs R t rid outs e = (a, e1) \<Longrightarrow> clock R e \<le> clock R e1"
  unfolding clock_advances_def by (metis snd_conv)

lemma clock_sleep:
  "clock_advances R \<Longrightarrow> time_time R w + 1 \<le> time_time R (time_sleep R 1 w)"
  by (simp add: clock_advances_def world_defs)

lemma body_clock:
  assumes "clock_advances R" and "wait_for_completion_body R rid w = (f, w1)"
  shows "time_time R w \<le> time_time R w1"
proof -
  obtain a e1 where fetch: "runs_retrieve R (thread_id w) rid (outside w) = (a, e1)"
    by (cases "runs_retrieve R (thread_id w) rid (outside w)")
  have c1: "clock R (outside w) \<le> clock R e1"
    by (rule clock_retrieve [OF assms(1) fetch])
  show ?thesis
  proof (cases a)
    case (Inl x)
    with assms(2) fetch c1 show ?thesis
      by (auto simp add: wait_for_completion_body_def world_defs)
  next
    case (Inr r)
    obtain b e2 where handle: "handle_tool_calls R r e1 = (b, e2)"
      by (cases "handle_tool_calls R r e1")
    have c2: "clock R e1 \<le> clock R e2"
      by (rule clock_handle [OF assms(1) handle])
    show ?thesis
    proof (cases b)
      case (Inl x)
      with assms(2) fetch \<open>a = Inr r\<close> handle c1 c2 show ?thesis
        by (auto simp add: wait_for_completion_body_def world_defs split: if_splits)
    next
      case (Inr outs)
      obtain c e3 where submit: "submit_tool_outputs R (thread_id w) rid outs e2 = (c, e3)"
        by (cases "submit_tool_outputs R (thread_id w) rid outs e2")
      have c3: "clock R e2 \<le> clock R e3"
        by (rule clock_submit [OF assms(1) submit])
      from assms(2) fetch \<open>a = Inr r\<close> handle \<open>b = Inr outs\<close> submit c1 c2 c3 show ?thesis
        by (auto simp add: wait_for_completion_body_def world_defs split: if_splits sum.splits)
    qed
  qed
qed

lemma passes_reach_exit:
  assumes "clock_advances R"
  shows "\<exists>n w'. passes R rid s t n w = Some w' \<and>
           (\<not> time_time R w' - s < real_of_int t \<or> fst (wait_for_completion_body R rid w') \<noteq> Next)"
proof (induction "nat \<lceil>real_of_int t - (time_time R w - s)\<rceil>" arbitrary: w rule: less_induct)
  case less
  show ?case
  proof (cases "time_time R w - s < real_of_int t \<and> fst (wait_for_completion_body R rid w) = Next")
    case False
    then have "passes R rid s t 0 w = Some w \<and>
      (\<not> time_time R w - s < real_of_int t \<or> fst (wait_for_completion_body R rid w) \<noteq> Next)"
      by auto
    then show ?thesis by blast
  next
    case True
    then obtain w1 where body: "wait_for_completion_body R rid w = (Next, w1)"
      by (cases "wait_for_completion_body R rid w") auto
    let ?w2 = "time_sleep R 1 w1"
    have "time_time R w + 1 \<le> time_time R ?w2"
      using body_clock [OF assms body] clock_sleep [OF assms, of w1] by linarith
    with True have "nat \<lceil>real_of_int t - (time_time R ?w2 - s)\<rceil>
                  < nat \<lceil>real_of_int t - (time_time R w - s)\<rceil>"
      by linarith
    from less [OF this] obtain n w' where
      n: "passes R rid s t n ?w2 = Some w'" and
      ex: "\<not> time_time R w' - s < real_of_int t \<or> fst (wait_for_completion_body R rid w') \<noteq> Next"
      by blast
    from True body n have "passes R rid s t (Suc n) w = Some w'" by simp
    with ex show ?thesis by blast
  qed
qed

lemma loop_returns:
  assumes "clock_advances R"
  shows "\<exists>res. wait_for_completion_loop R rid s t w = Some res"
proof -
  from passes_reach_exit [OF assms] obtain n w' where
    n: "passes R rid s t n w = Some w'" and
    ex: "\<not> time_time R w' - s < real_of_int t \<or> fst (wait_for_completion_body R rid w') \<noteq> Next"
    by blast
  have "\<exists>res. wait_for_completion_loop R rid s t w' = Some res"
  proof (cases "time_time R w' - s < real_of_int t")
    case False
    then show ?thesis by (simp add: loop_timeout)
  next
    case True
    with ex have "fst (wait_for_completion_body R rid w') \<noteq> Next" by simp
    then show ?thesis
      by (cases "wait_for_completion_body R rid w'"; cases "fst (wait_for_completion_body R rid w')")
         (auto simp add: loop_return [OF True] loop_raise [OF True])
  qed
  with passes_loop [OF n] show ?thesis by simp
qed

lemma scripted_clock_advances: "clock_advances (scripted answer tools thread post listing)"
  by (simp add: clock_advances_def scripted_def)

subsection \<open>Threads, cancellation, tools\<close>

lemma reset_thread_created:
  "threads_create R (outside w) = (Inr tid, e1) \<Longrightarrow>
   reset_thread R w =
     (Inr (), w\<lparr>outside := e1,
                trace := trace w @ [ClearThreadId, ThreadsCreate, SaveThreadId tid,
                           PrintSystemMessage ''New conversation thread created.'',
                           PrintSystemMessage ''Conversation thread has been reset.''],
                thread_id := tid, thread_file := Some tid\<rparr>)"
  by (simp add: reset_thread_def create_new_thread_def world_defs)

lemma reset_thread_failed:
  "threads_create R (outside w) = (Inl x, e1) \<Longrightarrow>
   reset_thread R w =
     (Inl x, w\<lparr>outside := e1, trace := trace w @ [ClearThreadId, ThreadsCreate],
               thread_file := None\<rparr>)"
  by (simp add: reset_thread_def create_new_thread_def world_defs)


lemma cancel_each_keeps:
  "cancel_each R rs w = (a, w1) \<Longrightarrow> thread_id w1 = thread_id w \<and> thread_file w1 = thread_file w"
proof (induction rs arbitrary: w)
  case Nil
  then show ?case by simp
next
  case (Cons r rs)
  show ?case
  proof (cases "status r \<in> {''queued'', ''in_progress''}")
    case False
    with Cons.prems have "cancel_each R rs w = (a, w1)" by simp
    then show ?thesis by (rule Cons.IH)
  next
    case True
    obtain c e1 where cancel: "runs_cancel R (thread_id w) (run_id r) (outside w) = (c, e1)"
      by (cases "runs_cancel R (thread_id w) (run_id r) (outside w)")
    show ?thesis
    proof (cases c)
      case (Inl x)
      with True cancel Cons.prems show ?thesis
        by (auto simp add: world_defs)
    next
      case (Inr u)
      with True cancel Cons.prems
      have "cancel_each R rs (advance e1 [RunsCancel (thread_id w) (run_id r)] w) = (a, w1)"
        by (simp add: world_defs)
      from Cons.IH [OF this] show ?thesis by (simp add: world_defs)
    qed
  qed
qed

lemma cancel_each_all:
  "cancel_each R rs w = (Inr (), w2) \<Longrightarrow>
   trace w2 = trace w @ map (\<lambda>r. RunsCancel (thread_id w) (run_id r))
                            (filter (\<lambda>r. status r \<in> {''queued'', ''in_progress''}) rs)"
proof (induction rs arbitrary: w)
  case Nil
  then show ?case by simp
next
  case (Cons r rs)
  show ?case
  proof (cases "status r \<in> {''queued'', ''in_progress''}")
    case False
    with Cons.prems have "cancel_each R rs w = (Inr (), w2)" by simp
    from Cons.IH [OF this] False show ?thesis by simp
  next
    case True
    obtain c e1 where cancel: "runs_cancel R (thread_id w) (run_id r) (outside w) = (c, e1)"
      by (cases "runs_cancel R (thread_id w) (run_id r) (outside w)")
    show ?thesis
    proof (cases c)
      case (Inl x)
      with True cancel Cons.prems show ?thesis
        by (auto simp add: world_defs)
    next
      case (Inr u)
      with True cancel Cons.prems
      have "cancel_each R rs (advance e1 [RunsCancel (thread_id w) (run_id r)] w) = (Inr (), w2)"
        by (simp add: world_defs)
      from Cons.IH [OF this] True show ?thesis by (simp add: world_defs)
    qed
  qed
qed

lemma cancel_try_keeps:
  "cancel_active_runs_try R w = (a, w1) \<Longrightarrow> thread_id w1 = thread_id w \<and> thread_file w1 = thread_file w"
proof -
  assume block: "cancel_active_runs_try R w = (a, w1)"
  obtain l e1 where listing: "runs_list R (thread_id w) (outside w) = (l, e1)"
    by (cases "runs_list R (thread_id w) (outside w)")
  show ?thesis
  proof (cases l)
    case (Inl x)
    with block listing show ?thesis
      by (auto simp add: cancel_active_runs_try_def world_defs)
  next
    case (Inr runs)
    with block listing
    have "cancel_each R runs (advance e1 [RunsList (thread_id w)] w) = (a, w1)"
      by (simp add: cancel_active_runs_try_def world_defs)
    from cancel_each_keeps [OF this] show ?thesis by (simp add: world_defs)
  qed
qed

lemma process_user_input_poll_failed:
  assumes "lower u \<notin> {''exit'', ''quit'', ''reset''}"
    and "process_user_input_start R aid u w0 = (Inr r0, w)"
    and "wait_for_completion R (run_id r0) 300 w = Some (Inr None, w2)"
  shows "process_user_input R aid u w0 = Some (Inr True, w2)"
  using assms by (simp add: process_user_input_def process_user_input_try_def)

lemma registry_execute_ids:
  "registry_execute reg cs e = (Inr outs, e') \<Longrightarrow> map tool_call_id outs = map call_id cs"
proof (induction cs arbitrary: e outs)
  case Nil
  then show ?case by simp
next
  case (Cons c cs)
  from Cons.prems obtain h out e1 rest where
    "reg (function_name c) = Some h" and
    "h (function_arguments c) e = (Inr out, e1)" and
    rest: "registry_execute reg cs e1 = (Inr rest, e')" and
    outs: "outs = \<lparr>tool_call_id = call_id c, output_text = out\<rparr> # rest"
    by (auto split: option.splits prod.splits sum.splits)
  from Cons.IH [OF rest] outs show ?case by simp
qed

section \<open>The poller: completion, failure, tool errors, timeout, tool outputs\<close>

text \<open>
  Claim C1. Let the loop of \<^verbatim>\<open>wait_for_completion\<close> make any number \<open>n\<close> of passes that
  reach the sleep (among them any number of \<^verbatim>\<open>requires_action\<close> cycles), and let the
  next pass start before the timeout and fetch a run whose status is \<^verbatim>\<open>completed\<close>.
  Then the method returns exactly that fetched run, and the fetch is the last effect: nothing
  is printed, submitted or slept after it.
\<close>

theorem completed_returns_run:
  assumes "passes R rid (time_time R w) timeout n w = Some w'"
    and "time_time R w' - time_time R w < real_of_int timeout"
    and "runs_retrieve R (thread_id w') rid (outside w') = (Inr r, e')"
    and "status r = ''completed''"
  shows "wait_for_completion R rid timeout w =
           Some (Inr (Some r), advance e' [RunsRetrieve (thread_id w') rid] w')"
  unfolding wait_for_completion_def
  using passes_loop [OF assms(1)] loop_return [OF assms(2) body_completed [OF assms(3,4)]]
  by simp

text \<open>
  A run that asks for a tool twice and is completed at time 2.
\<close>

theorem completed_returns_run_witness:
  "wait_for_completion
     (scripted (\<lambda>t. Inr (mk_run ''run_new'' (if t < 2 then ''requires_action'' else ''completed'')))
        (Inr [\<lparr>tool_call_id = ''call_1'', output_text = ''4''\<rparr>]) (Inr ''thread_new'') (Inr ()) (Inr []))
     ''run_new'' 300 initial =
   Some (Inr (Some (mk_run ''run_new'' ''completed'')),
         advance 2 [RunsRetrieve ''thread_old'' ''run_new'',
                    HandleToolCalls (mk_run ''run_new'' ''requires_action''),
                    SubmitToolOutputs ''thread_old'' ''run_new''
                      [\<lparr>tool_call_id = ''call_1'', output_text = ''4''\<rparr>],
                    Sleep 1,
                    RunsRetrieve ''thread_old'' ''run_new'',
                    HandleToolCalls (mk_run ''run_new'' ''requires_action''),
                    SubmitToolOutputs ''thread_old'' ''run_new''
                      [\<lparr>tool_call_id = ''call_1'', output_text = ''4''\<rparr>],
                    Sleep 1,
                    RunsRetrieve ''thread_old'' ''run_new''] initial)"
proof -
  let ?R = "scripted (\<lambda>t. Inr (mk_run ''run_new'' (if t < 2 then ''requires_action'' else ''completed'')))
        (Inr [\<lparr>tool_call_id = ''call_1'', output_text = ''4''\<rparr>]) (Inr ''thread_new'') (Inr ()) (Inr [])"
  let ?w' = "advance 2 [RunsRetrieve ''thread_old'' ''run_new'',
                    HandleToolCalls (mk_run ''run_new'' ''requires_action''),
                    SubmitToolOutputs ''thread_old'' ''run_new''
                      [\<lparr>tool_call_id = ''call_1'', output_text = ''4''\<rparr>],
                    Sleep 1,
                    RunsRetrieve ''thread_old'' ''run_new'',
                    HandleToolCalls (mk_run ''run_new'' ''requires_action''),
                    SubmitToolOutputs ''thread_old'' ''run_new''
                      [\<lparr>tool_call_id = ''call_1'', output_text = ''4''\<rparr>],
                    Sleep 1] initial"
  have two: "passes ?R ''run_new'' (time_time ?R initial) 300 (Suc (Suc 0)) initial = Some ?w'"
    by (simp add: wait_for_completion_body_def world_defs scripted_defs)
  have in_time: "time_time ?R ?w' - time_time ?R initial < real_of_int 300"
    by (simp add: world_defs scripted_defs)
  have fetch: "runs_retrieve ?R (thread_id ?w') ''run_new'' (outside ?w') =
                 (Inr (mk_run ''run_new'' ''completed''), 2)"
    by (simp add: world_defs scripted_defs)
  have st: "status (mk_run ''run_new'' ''completed'') = ''completed''"
    by (simp add: mk_run_def)
  show ?thesis
    using completed_returns_run [OF two in_time fetch st]
    by (simp add: world_defs scripted_defs)
qed

text \<open>
  Claim C2. When a pass that starts before the timeout fetches a run whose status is
  \<^verbatim>\<open>failed\<close>, \<^verbatim>\<open>cancelled\<close> or \<^verbatim>\<open>expired\<close>, the method returns
  \<^verbatim>\<open>None\<close>, and after the fetch the only effect is the message that reports the status:
  no tool outputs are submitted, there is no sleep and no further fetch.
\<close>

theorem ended_run_returns_failure:
  assumes "passes R rid (time_time R w) timeout n w = Some w'"
    and "time_time R w' - time_time R w < real_of_int timeout"
    and "runs_retrieve R (thread_id w') rid (outside w') = (Inr r, e')"
    and "status r \<in> {''failed'', ''cancelled'', ''expired''}"
  shows "wait_for_completion R rid timeout w =
           Some (Inr None, advance e' [RunsRetrieve (thread_id w') rid,
                   PrintSystemMessage (''Run ended with status: '' @ status r)] w')"
  unfolding wait_for_completion_def
  using passes_loop [OF assms(1)] loop_return [OF assms(2) body_ended [OF assms(3,4)]]
  by simp

text \<open>
  A run that is queued at the first fetch and expired at the second.
\<close>

theorem ended_run_returns_failure_witness:
  "wait_for_completion
     (scripted (\<lambda>t. Inr (mk_run ''run_new'' (if t < 1 then ''queued'' else ''expired'')))
        (Inr []) (Inr ''thread_new'') (Inr ()) (Inr []))
     ''run_new'' 300 initial =
   Some (Inr None,
         advance 1 [RunsRetrieve ''thread_old'' ''run_new'', Sleep 1,
                    RunsRetrieve ''thread_old'' ''run_new'',
                    PrintSystemMessage ''Run ended with status: expired''] initial)"
proof -
  let ?R = "scripted (\<lambda>t. Inr (mk_run ''run_new'' (if t < 1 then ''queued'' else ''expired'')))
        (Inr []) (Inr ''thread_new'') (Inr ()) (Inr [])"
  let ?w' = "advance 1 [RunsRetrieve ''thread_old'' ''run_new'', Sleep 1] initial"
  have one: "passes ?R ''run_new'' (time_time ?R initial) 300 (Suc 0) initial = Some ?w'"
    by (simp add: wait_for_completion_body_def world_defs scripted_defs)
  have in_time: "time_time ?R ?w' - time_time ?R initial < real_of_int 300"
    by (simp add: world_defs scripted_defs)
  have fetch: "runs_retrieve ?R (thread_id ?w') ''run_new'' (outside ?w') =
                 (Inr (mk_run ''run_new'' ''expired''), 1)"
    by (simp add: world_defs scripted_defs)
  have st: "status (mk_run ''run_new'' ''expired'') \<in> {''failed'', ''cancelled'', ''expired''}"
    by (simp add: mk_run_def)
  show ?thesis
    using ended_run_returns_failure [OF one in_time fetch st]
    by (simp add: world_defs scripted_defs)
qed

text \<open>
  Claim C3. When \<^verbatim>\<open>handle_tool_calls\<close> raises while a \<^verbatim>\<open>requires_action\<close> status
  is handled, the method prints the error and returns \<^verbatim>\<open>None\<close> at once: nothing is
  submitted, there is no sleep and no further fetch, and no exception leaves the method. The
  turn that called the poller then ends normally: \<^verbatim>\<open>process_user_input\<close> returns
  \<^verbatim>\<open>True\<close>, the value that keeps the session loop running, in the same world.
\<close>

theorem tool_error_aborts_poll:
  assumes "passes R rid (time_time R w) timeout n w = Some w'"
    and "time_time R w' - time_time R w < real_of_int timeout"
    and "runs_retrieve R (thread_id w') rid (outside w') = (Inr r, e1)"
    and "status r = ''requires_action''"
    and "handle_tool_calls R r e1 = (Inl x, e2)"
  shows "wait_for_completion R rid timeout w =
           Some (Inr None, advance e2 [RunsRetrieve (thread_id w') rid, HandleToolCalls r,
                   PrintSystemMessage (''Error handling tool calls: '' @ x)] w') \<and>
         (\<forall>aid u w0 r0. lower u \<notin> {''exit'', ''quit'', ''reset''} \<longrightarrow>
            process_user_input_start R aid u w0 = (Inr r0, w) \<longrightarrow> run_id r0 = rid \<longrightarrow>
            timeout = 300 \<longrightarrow>
            process_user_input R aid u w0 =
              Some (Inr True, advance e2 [RunsRetrieve (thread_id w') rid, HandleToolCalls r,
                      PrintSystemMessage (''Error handling tool calls: '' @ x)] w'))"
proof -
  have poll: "wait_for_completion R rid timeout w =
           Some (Inr None, advance e2 [RunsRetrieve (thread_id w') rid, HandleToolCalls r,
                   PrintSystemMessage (''Error handling tool calls: '' @ x)] w')"
    unfolding wait_for_completion_def
    using passes_loop [OF assms(1)] loop_return [OF assms(2) body_tool_error [OF assms(3,4,5)]]
    by simp
  show ?thesis
  proof (intro conjI allI impI)
    show "wait_for_completion R rid timeout w =
           Some (Inr None, advance e2 [RunsRetrieve (thread_id w') rid, HandleToolCalls r,
                   PrintSystemMessage (''Error handling tool calls: '' @ x)] w')"
      by (rule poll)
  next
    fix aid u w0 r0
    assume "lower u \<notin> {''exit'', ''quit'', ''reset''}"
      and "process_user_input_start R aid u w0 = (Inr r0, w)"
      and "run_id r0 = rid" and "timeout = 300"
    with poll show "process_user_input R aid u w0 =
              Some (Inr True, advance e2 [RunsRetrieve (thread_id w') rid, HandleToolCalls r,
                      PrintSystemMessage (''Error handling tool calls: '' @ x)] w')"
      by (simp add: process_user_input_poll_failed)
  qed
qed

text \<open>
  A turn whose run asks for a tool, and a tool handler that raises.
\<close>

theorem tool_error_aborts_poll_witness:
  "process_user_input
     (scripted (\<lambda>t. Inr (mk_run ''run_new'' ''requires_action''))
        (Inl ''boom'') (Inr ''thread_new'') (Inr ()) (Inr []))
     ''asst'' ''hello'' initial =
   Some (Inr True,
         advance 0 [RunsList ''thread_old'', MessagesCreate ''thread_old'' ''hello'',
                    RunsCreate ''thread_old'' ''asst'',
                    RunsRetrieve ''thread_old'' ''run_new'',
                    HandleToolCalls (mk_run ''run_new'' ''requires_action''),
                    PrintSystemMessage ''Error handling tool calls: boom''] initial)"
proof -
  let ?R = "scripted (\<lambda>t. Inr (mk_run ''run_new'' ''requires_action''))
        (Inl ''boom'') (Inr ''thread_new'') (Inr ()) (Inr [])"
  let ?w = "advance 0 [RunsList ''thread_old'', MessagesCreate ''thread_old'' ''hello'',
                    RunsCreate ''thread_old'' ''asst''] initial"
  have none: "passes ?R ''run_new'' (time_time ?R ?w) 300 0 ?w = Some ?w"
    by simp
  have in_time: "time_time ?R ?w - time_time ?R ?w < real_of_int 300"
    by simp
  have fetch: "runs_retrieve ?R (thread_id ?w) ''run_new'' (outside ?w) =
                 (Inr (mk_run ''run_new'' ''requires_action''), 0)"
    by (simp add: world_defs scripted_defs)
  have st: "status (mk_run ''run_new'' ''requires_action'') = ''requires_action''"
    by (simp add: mk_run_def)
  have tools: "handle_tool_calls ?R (mk_run ''run_new'' ''requires_action'') 0 = (Inl ''boom'', 0)"
    by (simp add: scripted_defs)
  have cmd: "lower ''hello'' \<notin> {''exit'', ''quit'', ''reset''}"
    by (simp add: lower_hello)
  have start: "process_user_input_start ?R ''asst'' ''hello'' initial = (Inr (mk_run ''run_new'' ''queued''), ?w)"
    by (simp add: turn_defs world_defs scripted_defs)
  have rid: "run_id (mk_run ''run_new'' ''queued'') = ''run_new''"
    by (simp add: mk_run_def)
  from tool_error_aborts_poll [OF none in_time fetch st tools] cmd start rid
  show ?thesis
    by (simp add: world_defs scripted_defs)
qed

text \<open>
  Claim C4 (amended). On a clock that never runs backwards over the calls of the loop and on
  which \<^verbatim>\<open>time.sleep(1)\<close> takes at least one time unit, \<^verbatim>\<open>wait_for_completion\<close>
  always returns. If moreover every pass that the loop starts before the timeout stays
  pending (the fetch succeeds with a status that is not terminal, and handling the tool calls
  of a \<^verbatim>\<open>requires_action\<close> status raises nothing), then the loop ends through its
  condition: the timeout is reported, the result is \<^verbatim>\<open>None\<close>, and the time elapsed
  since the start is at least the timeout.
\<close>

theorem timeout_when_pending:
  assumes "clock_advances R"
  shows "(\<exists>res. wait_for_completion R rid timeout w = Some res) \<and>
         ((\<forall>n w'. passes R rid (time_time R w) timeout n w = Some w' \<longrightarrow>
                  time_time R w' - time_time R w < real_of_int timeout \<longrightarrow>
                  stays_pending R rid w') \<longrightarrow>
          (\<exists>w'. wait_for_completion R rid timeout w =
                   Some (Inr None, print_system_message ''Run timed out'' w') \<and>
                 real_of_int timeout \<le> time_time R w' - time_time R w))"
proof (intro conjI impI)
  show "\<exists>res. wait_for_completion R rid timeout w = Some res"
    unfolding wait_for_completion_def by (rule loop_returns [OF assms])
next
  assume pending: "\<forall>n w'. passes R rid (time_time R w) timeout n w = Some w' \<longrightarrow>
                  time_time R w' - time_time R w < real_of_int timeout \<longrightarrow>
                  stays_pending R rid w'"
  from passes_reach_exit [OF assms] obtain n w' where
    n: "passes R rid (time_time R w) timeout n w = Some w'" and
    ex: "\<not> time_time R w' - time_time R w < real_of_int timeout \<or>
         fst (wait_for_completion_body R rid w') \<noteq> Next"
    by blast
  have late: "\<not> time_time R w' - time_time R w < real_of_int timeout"
  proof
    assume in_time: "time_time R w' - time_time R w < real_of_int timeout"
    with pending n have "stays_pending R rid w'" by blast
    then have "fst (wait_for_completion_body R rid w') = Next"
      by (simp add: stays_pending_body)
    with ex in_time show False by simp
  qed
  have "wait_for_completion R rid timeout w =
          Some (Inr None, print_system_message ''Run timed out'' w')"
    unfolding wait_for_completion_def
    using passes_loop [OF n] loop_timeout [OF late] by simp
  moreover from late have "real_of_int timeout \<le> time_time R w' - time_time R w"
    by simp
  ultimately show "\<exists>w'. wait_for_completion R rid timeout w =
                   Some (Inr None, print_system_message ''Run timed out'' w') \<and>
                 real_of_int timeout \<le> time_time R w' - time_time R w"
    by blast
qed

text \<open>
  A run that stays in progress, polled with a timeout of 2.
\<close>

theorem timeout_when_pending_witness:
  "clock_advances (scripted (\<lambda>t. Inr (mk_run ''run_new'' ''in_progress'')) (Inr []) (Inr ''thread_new'') (Inr ()) (Inr [])) \<and>
   (\<exists>w'. wait_for_completion
            (scripted (\<lambda>t. Inr (mk_run ''run_new'' ''in_progress'')) (Inr []) (Inr ''thread_new'') (Inr ()) (Inr []))
            ''run_new'' 2 initial =
          Some (Inr None, print_system_message ''Run timed out'' w') \<and>
          real_of_int 2 \<le>
            time_time (scripted (\<lambda>t. Inr (mk_run ''run_new'' ''in_progress'')) (Inr []) (Inr ''thread_new'') (Inr ()) (Inr [])) w'
            - time_time (scripted (\<lambda>t. Inr (mk_run ''run_new'' ''in_progress'')) (Inr []) (Inr ''thread_new'') (Inr ()) (Inr [])) initial)"
proof -
  let ?R = "scripted (\<lambda>t. Inr (mk_run ''run_new'' ''in_progress'')) (Inr []) (Inr ''thread_new'') (Inr ()) (Inr [])"
  have pending: "\<forall>n w'. passes ?R ''run_new'' (time_time ?R initial) 2 n initial = Some w' \<longrightarrow>
                  time_time ?R w' - time_time ?R initial < real_of_int 2 \<longrightarrow>
                  stays_pending ?R ''run_new'' w'"
    by (simp add: stays_pending_def scripted_defs)
  from timeout_when_pending [OF scripted_clock_advances, of _ _ _ _ _ "''run_new''" 2 initial] pending
  show ?thesis
    using scripted_clock_advances by blast
qed

text \<open>
  The statuses alone do not decide the outcome: a run that is fetched in
  \<^verbatim>\<open>requires_action\<close>, which is not a terminal status, with a tool handler that raises,
  ends the poll at time 0 of 300 with the tool error, and no timeout is reported.
\<close>

theorem timeout_counterexample:
  "status (mk_run ''run_new'' ''requires_action'') \<notin> {''completed'', ''failed'', ''cancelled'', ''expired''} \<and>
   wait_for_completion
     (scripted (\<lambda>t. Inr (mk_run ''run_new'' ''requires_action'')) (Inl ''boom'') (Inr ''thread_new'') (Inr ()) (Inr []))
     ''run_new'' 300 initial =
   Some (Inr None,
         advance 0 [RunsRetrieve ''thread_old'' ''run_new'',
                    HandleToolCalls (mk_run ''run_new'' ''requires_action''),
                    PrintSystemMessage ''Error handling tool calls: boom''] initial) \<and>
   PrintSystemMessage ''Run timed out'' \<notin>
     set (trace (advance 0 [RunsRetrieve ''thread_old'' ''run_new'',
                    HandleToolCalls (mk_run ''run_new'' ''requires_action''),
                    PrintSystemMessage ''Error handling tool calls: boom''] initial)) \<and>
   \<not> real_of_int 300 \<le> outside (advance 0 [RunsRetrieve ''thread_old'' ''run_new'',
                    HandleToolCalls (mk_run ''run_new'' ''requires_action''),
                    PrintSystemMessage ''Error handling tool calls: boom''] initial) - outside initial"
  by (simp add: poller_defs world_defs scripted_defs)

text \<open>
  Claim C5. In a pass that fetches a \<^verbatim>\<open>requires_action\<close> status for which
  \<^verbatim>\<open>handle_tool_calls\<close> returns the outputs \<open>outs\<close>: if \<open>outs\<close> is not empty, the pass
  submits exactly \<open>outs\<close> in one call of \<^verbatim>\<open>submit_tool_outputs\<close>, the only submission of
  the pass; if \<open>outs\<close> is empty, nothing is submitted and the pass goes on to the sleep and
  the next pass. When the outputs come from the registry, there is one output for each of
  the \<open>N\<close> pending tool calls, with the call ids in the order of the calls.
\<close>

theorem tool_outputs_one_batch:
  assumes "time_time R w - s < real_of_int t"
    and "runs_retrieve R (thread_id w) rid (outside w) = (Inr r, e1)"
    and "status r = ''requires_action''"
    and "handle_tool_calls R r e1 = (Inr outs, e2)"
  shows "(outs \<noteq> [] \<longrightarrow>
           (\<forall>res e3. submit_tool_outputs R (thread_id w) rid outs e2 = (res, e3) \<longrightarrow>
              wait_for_completion_body R rid w =
                (case res of
                   Inl x \<Rightarrow> (Return None,
                     advance e3 [RunsRetrieve (thread_id w) rid, HandleToolCalls r,
                                 SubmitToolOutputs (thread_id w) rid outs,
                                 PrintSystemMessage (''Error handling tool calls: '' @ x)] w)
                 | Inr r' \<Rightarrow> (Next,
                     advance e3 [RunsRetrieve (thread_id w) rid, HandleToolCalls r,
                                 SubmitToolOutputs (thread_id w) rid outs] w)))) \<and>
         (outs = [] \<longrightarrow>
            wait_for_completion_body R rid w =
              (Next, advance e2 [RunsRetrieve (thread_id w) rid, HandleToolCalls r] w) \<and>
            wait_for_completion_loop R rid s t w =
              wait_for_completion_loop R rid s t
                (time_sleep R 1 (advance e2 [RunsRetrieve (thread_id w) rid, HandleToolCalls r] w))) \<and>
         (\<forall>reg. handle_tool_calls R = registry_handle_tool_calls reg \<longrightarrow>
            length outs = length (tool_calls r) \<and>
            map tool_call_id outs = map call_id (tool_calls r))"
proof (intro conjI impI allI)
  fix res e3
  assume "outs \<noteq> []" and "submit_tool_outputs R (thread_id w) rid outs e2 = (res, e3)"
  then show "wait_for_completion_body R rid w =
                (case res of
                   Inl x \<Rightarrow> (Return None,
                     advance e3 [RunsRetrieve (thread_id w) rid, HandleToolCalls r,
                                 SubmitToolOutputs (thread_id w) rid outs,
                                 PrintSystemMessage (''Error handling tool calls: '' @ x)] w)
                 | Inr r' \<Rightarrow> (Next,
                     advance e3 [RunsRetrieve (thread_id w) rid, HandleToolCalls r,
                                 SubmitToolOutputs (thread_id w) rid outs] w))"
    by (rule body_submit [OF assms(2,3,4)])
next
  assume "outs = []"
  with assms(4) have none: "handle_tool_calls R r e1 = (Inr [], e2)" by simp
  show body: "wait_for_completion_body R rid w =
              (Next, advance e2 [RunsRetrieve (thread_id w) rid, HandleToolCalls r] w)"
    by (rule body_no_outputs [OF assms(2,3) none])
  show "wait_for_completion_loop R rid s t w =
              wait_for_completion_loop R rid s t
                (time_sleep R 1 (advance e2 [RunsRetrieve (thread_id w) rid, HandleToolCalls r] w))"
    by (rule loop_next [OF assms(1) body])
next
  fix reg
  assume "handle_tool_calls R = registry_handle_tool_calls reg"
  with assms(4) have "registry_execute reg (tool_calls r) e1 = (Inr outs, e2)"
    by (simp add: registry_handle_tool_calls_def)
  then have ids: "map tool_call_id outs = map call_id (tool_calls r)"
    by (rule registry_execute_ids)
  then show "map tool_call_id outs = map call_id (tool_calls r)" .
  from ids have "length (map tool_call_id outs) = length (map call_id (tool_calls r))"
    by simp
  then show "length outs = length (tool_calls r)" by simp
qed

text \<open>
  A run that asks for the tool \<open>add\<close> twice, with the registry and with a handler that
  produces no outputs.
\<close>

theorem tool_outputs_one_batch_witness:
  "wait_for_completion_body
     ((scripted (\<lambda>t. Inr asking) (Inr []) (Inr ''thread_new'') (Inr ()) (Inr []))
        \<lparr>handle_tool_calls := registry_handle_tool_calls calculator\<rparr>) ''run_new'' initial =
     (Next, advance 0 [RunsRetrieve ''thread_old'' ''run_new'', HandleToolCalls asking,
                       SubmitToolOutputs ''thread_old'' ''run_new''
                         [\<lparr>tool_call_id = ''call_1'', output_text = ''sum of 2 2''\<rparr>,
                          \<lparr>tool_call_id = ''call_2'', output_text = ''sum of 3 4''\<rparr>]] initial) \<and>
   length [\<lparr>tool_call_id = ''call_1'', output_text = ''sum of 2 2''\<rparr>,
           \<lparr>tool_call_id = ''call_2'', output_text = ''sum of 3 4''\<rparr>] = length (tool_calls asking) \<and>
   wait_for_completion_body
     (scripted (\<lambda>t. Inr asking) (Inr []) (Inr ''thread_new'') (Inr ()) (Inr [])) ''run_new'' initial =
     (Next, advance 0 [RunsRetrieve ''thread_old'' ''run_new'', HandleToolCalls asking] initial)"
proof -
  let ?S = "scripted (\<lambda>t. Inr asking) (Inr []) (Inr ''thread_new'') (Inr ()) (Inr [])"
  let ?R = "?S\<lparr>handle_tool_calls := registry_handle_tool_calls calculator\<rparr>"
  let ?outs = "[\<lparr>tool_call_id = ''call_1'', output_text = ''sum of 2 2''\<rparr>,
                \<lparr>tool_call_id = ''call_2'', output_text = ''sum of 3 4''\<rparr>]"
  have in_time: "time_time ?R initial - 0 < real_of_int 300"
    and in_time': "time_time ?S initial - 0 < real_of_int 300"
    by (simp_all add: world_defs scripted_defs)
  have fetch: "runs_retrieve ?R (thread_id initial) ''run_new'' (outside initial) = (Inr asking, 0)"
    and fetch': "runs_retrieve ?S (thread_id initial) ''run_new'' (outside initial) = (Inr asking, 0)"
    by (simp_all add: scripted_defs)
  have st: "status asking = ''requires_action''"
    by (simp add: asking_def)
  have tools: "handle_tool_calls ?R asking 0 = (Inr ?outs, 0)"
    by (simp add: scripted_defs registry_handle_tool_calls_def asking_def calculator_def)
  have tools': "handle_tool_calls ?S asking 0 = (Inr [], 0)"
    by (simp add: scripted_defs)
  have some: "?outs \<noteq> []" by simp
  have submit: "submit_tool_outputs ?R (thread_id initial) ''run_new'' ?outs 0 =
                  (Inr (mk_run ''run_new'' ''queued''), 0)"
    by (simp add: scripted_defs)
  have reg: "handle_tool_calls ?R = registry_handle_tool_calls calculator"
    by simp
  from tool_outputs_one_batch [OF in_time fetch st tools] some submit reg
  have "wait_for_completion_body ?R ''run_new'' initial =
          (Next, advance 0 [RunsRetrieve (thread_id initial) ''run_new'', HandleToolCalls asking,
                            SubmitToolOutputs (thread_id initial) ''run_new'' ?outs] initial) \<and>
        length ?outs = length (tool_calls asking)"
    by fastforce
  moreover from tool_outputs_one_batch [OF in_time' fetch' st tools']
  have "wait_for_completion_body ?S ''run_new'' initial =
          (Next, advance 0 [RunsRetrieve (thread_id initial) ''run_new'', HandleToolCalls asking] initial)"
    by blast
  ultimately show ?thesis
    by (simp add: initial_def)
qed

section \<open>The controller: turns, recovery, reset\<close>

text \<open>
  Claim C6 (amended). In a turn that posts a message, when listing the runs succeeds and no
  cancel request raises, the controller lists the runs of the thread, then requests the
  cancellation of every listed run whose status is \<^verbatim>\<open>queued\<close> or
  \<^verbatim>\<open>in_progress\<close>, in the order of the list, then posts the message, then creates the
  new run: the trace of the turn is exactly these calls in this order. So, when the message
  is posted and the new run is created, every listed run that was \<^verbatim>\<open>queued\<close> or
  \<^verbatim>\<open>in_progress\<close> has been sent a cancel request.
\<close>

theorem cancels_listed_runs_before_post:
  assumes "runs_list R (thread_id w) (outside w) = (Inr runs, e1)"
    and "cancel_each R runs (advance e1 [RunsList (thread_id w)] w) = (Inr (), w2)"
    and "messages_create R (thread_id w) u (outside w2) = (Inr (), e3)"
    and "runs_create R (thread_id w) aid e3 = (res, e4)"
  shows "process_user_input_start R aid u w =
           (res, advance e4 [MessagesCreate (thread_id w) u, RunsCreate (thread_id w) aid] w2) \<and>
         trace w2 = trace w @ RunsList (thread_id w) #
                      map (\<lambda>r. RunsCancel (thread_id w) (run_id r))
                          (filter (\<lambda>r. status r \<in> {''queued'', ''in_progress''}) runs) \<and>
         (\<forall>r \<in> set runs. status r \<in> {''queued'', ''in_progress''} \<longrightarrow>
            RunsCancel (thread_id w) (run_id r) \<in> set (trace w2))"
proof (intro conjI)
  from cancel_each_keeps [OF assms(2)] have tid: "thread_id w2 = thread_id w"
    by (simp add: world_defs)
  from assms(1,2) have "cancel_active_runs R w = (Inr (), w2)"
    by (simp add: cancel_active_runs_def cancel_active_runs_try_def world_defs)
  with assms(3,4) tid show "process_user_input_start R aid u w =
           (res, advance e4 [MessagesCreate (thread_id w) u, RunsCreate (thread_id w) aid] w2)"
    by (simp add: process_user_input_start_def world_defs)
  from cancel_each_all [OF assms(2)]
  show requests: "trace w2 = trace w @ RunsList (thread_id w) #
                      map (\<lambda>r. RunsCancel (thread_id w) (run_id r))
                          (filter (\<lambda>r. status r \<in> {''queued'', ''in_progress''}) runs)"
    by (simp add: world_defs)
  show "\<forall>r \<in> set runs. status r \<in> {''queued'', ''in_progress''} \<longrightarrow>
            RunsCancel (thread_id w) (run_id r) \<in> set (trace w2)"
  proof (intro ballI impI)
    fix r
    assume "r \<in> set runs" and "status r \<in> {''queued'', ''in_progress''}"
    with requests show "RunsCancel (thread_id w) (run_id r) \<in> set (trace w2)"
      by auto
  qed
qed

text \<open>
  A thread with one run in progress, one completed and one queued.
\<close>

theorem cancels_listed_runs_before_post_witness:
  "process_user_input_start
     (scripted (\<lambda>t. Inr (mk_run ''run_new'' ''queued'')) (Inr []) (Inr ''thread_new'') (Inr ())
        (Inr [mk_run ''run_1'' ''in_progress'', mk_run ''run_2'' ''completed'', mk_run ''run_3'' ''queued'']))
     ''asst'' ''hello'' initial =
   (Inr (mk_run ''run_new'' ''queued''),
    advance 0 [RunsList ''thread_old'', RunsCancel ''thread_old'' ''run_1'',
               RunsCancel ''thread_old'' ''run_3'', MessagesCreate ''thread_old'' ''hello'',
               RunsCreate ''thread_old'' ''asst''] initial) \<and>
   RunsCancel ''thread_old'' ''run_3'' \<in>
     set (trace (advance 0 [RunsList ''thread_old'', RunsCancel ''thread_old'' ''run_1'',
                            RunsCancel ''thread_old'' ''run_3''] initial))"
proof -
  let ?runs = "[mk_run ''run_1'' ''in_progress'', mk_run ''run_2'' ''completed'', mk_run ''run_3'' ''queued'']"
  let ?R = "scripted (\<lambda>t. Inr (mk_run ''run_new'' ''queued'')) (Inr []) (Inr ''thread_new'') (Inr ()) (Inr ?runs)"
  let ?w2 = "advance 0 [RunsList ''thread_old'', RunsCancel ''thread_old'' ''run_1'',
               RunsCancel ''thread_old'' ''run_3''] initial"
  have listing: "runs_list ?R (thread_id initial) (outside initial) = (Inr ?runs, 0)"
    by (simp add: scripted_defs)
  have cancels: "cancel_each ?R ?runs (advance 0 [RunsList (thread_id initial)] initial) = (Inr (), ?w2)"
    by (simp add: world_defs scripted_defs)
  have post: "messages_create ?R (thread_id initial) ''hello'' (outside ?w2) = (Inr (), 0)"
    by (simp add: world_defs scripted_defs)
  have create: "runs_create ?R (thread_id initial) ''asst'' 0 = (Inr (mk_run ''run_new'' ''queued''), 0)"
    by (simp add: scripted_defs)
  have listed: "mk_run ''run_3'' ''queued'' \<in> set ?runs"
    and active: "status (mk_run ''run_3'' ''queued'') \<in> {''queued'', ''in_progress''}"
    and names: "run_id (mk_run ''run_3'' ''queued'') = ''run_3''" "thread_id initial = ''thread_old''"
    by (simp_all add: scripted_defs)
  note turn = cancels_listed_runs_before_post [OF listing cancels post create]
  from turn have "process_user_input_start ?R ''asst'' ''hello'' initial =
      (Inr (mk_run ''run_new'' ''queued''),
       advance 0 [MessagesCreate (thread_id initial) ''hello'', RunsCreate (thread_id initial) ''asst''] ?w2)"
    by blast
  then have one: "process_user_input_start ?R ''asst'' ''hello'' initial =
      (Inr (mk_run ''run_new'' ''queued''),
       advance 0 [RunsList ''thread_old'', RunsCancel ''thread_old'' ''run_1'',
               RunsCancel ''thread_old'' ''run_3'', MessagesCreate ''thread_old'' ''hello'',
               RunsCreate ''thread_old'' ''asst''] initial)"
    by (simp add: world_defs initial_def)
  from turn listed active
  have "RunsCancel (thread_id initial) (run_id (mk_run ''run_3'' ''queued'')) \<in> set (trace ?w2)"
    by blast
  then have two: "RunsCancel ''thread_old'' ''run_3'' \<in> set (trace ?w2)"
    by (simp only: names)
  from one two show ?thesis by (rule conjI)
qed

text \<open>
  Two turns in which a new run is created although a prior run may still be active. In the
  first, cancelling the first listed run raises, and the second listed run, which is in
  progress, is never cancelled. In the second, nothing raises: the listed run is in
  \<^verbatim>\<open>requires_action\<close>, a status that is not terminal, and no cancel request is made
  for it.
\<close>

theorem cancels_listed_runs_counterexample:
  "status (mk_run ''run_2'' ''in_progress'') \<in> {''queued'', ''in_progress''} \<and>
   process_user_input_start
     (scripted (\<lambda>t. Inr (mk_run ''run_new'' ''queued'')) (Inr []) (Inr ''thread_new'') (Inr ())
        (Inr [mk_run ''run_bad'' ''queued'', mk_run ''run_2'' ''in_progress'']))
     ''asst'' ''hello'' initial =
   (Inr (mk_run ''run_new'' ''queued''),
    advance 0 [RunsList ''thread_old'', RunsCancel ''thread_old'' ''run_bad'',
               PrintSystemMessage ''Error canceling runs: cannot cancel'',
               MessagesCreate ''thread_old'' ''hello'', RunsCreate ''thread_old'' ''asst''] initial) \<and>
   RunsCancel ''thread_old'' ''run_2'' \<notin>
     set (trace (advance 0 [RunsList ''thread_old'', RunsCancel ''thread_old'' ''run_bad'',
               PrintSystemMessage ''Error canceling runs: cannot cancel'',
               MessagesCreate ''thread_old'' ''hello'', RunsCreate ''thread_old'' ''asst''] initial)) \<and>
   process_user_input_start
     (scripted (\<lambda>t. Inr (mk_run ''run_new'' ''queued'')) (Inr []) (Inr ''thread_new'') (Inr ())
        (Inr [mk_run ''run_old'' ''requires_action'']))
     ''asst'' ''hello'' initial =
   (Inr (mk_run ''run_new'' ''queued''),
    advance 0 [RunsList ''thread_old'', MessagesCreate ''thread_old'' ''hello'',
               RunsCreate ''thread_old'' ''asst''] initial) \<and>
   RunsCancel ''thread_old'' ''run_old'' \<notin>
     set (trace (advance 0 [RunsList ''thread_old'', MessagesCreate ''thread_old'' ''hello'',
               RunsCreate ''thread_old'' ''asst''] initial))"
  by (simp add: turn_defs world_defs scripted_defs)

text \<open>
  Claim C7 (amended). When the \<^verbatim>\<open>try\<close> block of a turn raises \<open>x\<close>, the controller
  prints the error and the notice of a new conversation, clears the stored identifier and
  asks the service for a new thread. If the service returns one, it is installed and stored
  and \<^verbatim>\<open>process_user_input\<close> returns \<^verbatim>\<open>True\<close>. If that request raises as well, the
  exception leaves \<^verbatim>\<open>process_user_input\<close>.
\<close>

theorem turn_exception_resets_thread:
  assumes "process_user_input_try R aid u w = Some (Inl x, w1)"
  shows "(\<forall>tid e2. threads_create R (outside w1) = (Inr tid, e2) \<longrightarrow>
            process_user_input R aid u w =
              Some (Inr True,
                    w1\<lparr>outside := e2,
                       trace := trace w1 @ [PrintSystemMessage (''An error occurred: '' @ x),
                                  PrintSystemMessage ''Starting a new conversation...'',
                                  ClearThreadId, ThreadsCreate, SaveThreadId tid,
                                  PrintSystemMessage ''New conversation thread created.'',
                                  PrintSystemMessage ''Conversation thread has been reset.''],
                       thread_id := tid, thread_file := Some tid\<rparr>)) \<and>
         (\<forall>y e2. threads_create R (outside w1) = (Inl y, e2) \<longrightarrow>
            process_user_input R aid u w =
              Some (Inl y,
                    w1\<lparr>outside := e2,
                       trace := trace w1 @ [PrintSystemMessage (''An error occurred: '' @ x),
                                  PrintSystemMessage ''Starting a new conversation...'',
                                  ClearThreadId, ThreadsCreate],
                       thread_file := None\<rparr>))"
proof (intro conjI allI impI)
  fix tid e2
  assume "threads_create R (outside w1) = (Inr tid, e2)"
  then have "threads_create R
               (outside (print_system_message ''Starting a new conversation...''
                          (print_system_message (''An error occurred: '' @ x) w1))) = (Inr tid, e2)"
    by (simp add: world_defs)
  from reset_thread_created [OF this] assms
  show "process_user_input R aid u w =
              Some (Inr True,
                    w1\<lparr>outside := e2,
                       trace := trace w1 @ [PrintSystemMessage (''An error occurred: '' @ x),
                                  PrintSystemMessage ''Starting a new conversation...'',
                                  ClearThreadId, ThreadsCreate, SaveThreadId tid,
                                  PrintSystemMessage ''New conversation thread created.'',
                                  PrintSystemMessage ''Conversation thread has been reset.''],
                       thread_id := tid, thread_file := Some tid\<rparr>)"
    by (simp add: process_user_input_def world_defs)
next
  fix y e2
  assume "threads_create R (outside w1) = (Inl y, e2)"
  then have "threads_create R
               (outside (print_system_message ''Starting a new conversation...''
                          (print_system_message (''An error occurred: '' @ x) w1))) = (Inl y, e2)"
    by (simp add: world_defs)
  from reset_thread_failed [OF this] assms
  show "process_user_input R aid u w =
              Some (Inl y,
                    w1\<lparr>outside := e2,
                       trace := trace w1 @ [PrintSystemMessage (''An error occurred: '' @ x),
                                  PrintSystemMessage ''Starting a new conversation...'',
                                  ClearThreadId, ThreadsCreate],
                       thread_file := None\<rparr>)"
    by (simp add: process_user_input_def world_defs)
qed

text \<open>
  A turn in which posting the message raises, and the service then creates a thread.
\<close>

theorem turn_exception_resets_thread_witness:
  "process_user_input
     (scripted (\<lambda>t. Inr (mk_run ''run_new'' ''queued'')) (Inr []) (Inr ''thread_new'')
        (Inl ''connection lost'') (Inr []))
     ''asst'' ''hello'' initial =
   Some (Inr True,
         initial\<lparr>trace := [RunsList ''thread_old'', MessagesCreate ''thread_old'' ''hello'',
                     PrintSystemMessage ''An error occurred: connection lost'',
                     PrintSystemMessage ''Starting a new conversation...'',
                     ClearThreadId, ThreadsCreate, SaveThreadId ''thread_new'',
                     PrintSystemMessage ''New conversation thread created.'',
                     PrintSystemMessage ''Conversation thread has been reset.''],
                 thread_id := ''thread_new'', thread_file := Some ''thread_new''\<rparr>)"
proof -
  let ?R = "scripted (\<lambda>t. Inr (mk_run ''run_new'' ''queued'')) (Inr []) (Inr ''thread_new'')
        (Inl ''connection lost'') (Inr [])"
  let ?w1 = "advance 0 [RunsList ''thread_old'', MessagesCreate ''thread_old'' ''hello''] initial"
  have raised: "process_user_input_try ?R ''asst'' ''hello'' initial = Some (Inl ''connection lost'', ?w1)"
    by (simp add: process_user_input_try_def lower_hello turn_defs world_defs scripted_defs)
  have created: "threads_create ?R (outside ?w1) = (Inr ''thread_new'', 0)"
    by (simp add: world_defs scripted_defs)
  from turn_exception_resets_thread [OF raised] created
  have "process_user_input ?R ''asst'' ''hello'' initial =
          Some (Inr True,
                ?w1\<lparr>outside := 0,
                    trace := trace ?w1 @ [PrintSystemMessage (''An error occurred: '' @ ''connection lost''),
                                  PrintSystemMessage ''Starting a new conversation...'',
                                  ClearThreadId, ThreadsCreate, SaveThreadId ''thread_new'',
                                  PrintSystemMessage ''New conversation thread created.'',
                                  PrintSystemMessage ''Conversation thread has been reset.''],
                    thread_id := ''thread_new'', thread_file := Some ''thread_new''\<rparr>)"
    by blast
  then show ?thesis
    by (simp add: world_defs initial_def)
qed

text \<open>
  With a service that raises on every call, the exception raised by the recovery leaves
  \<^verbatim>\<open>process_user_input\<close>: the method does not return \<^verbatim>\<open>True\<close>, and no fresh thread
  is installed.
\<close>

theorem turn_exception_counterexample:
  "process_user_input
     (scripted (\<lambda>t. Inr (mk_run ''run_new'' ''queued'')) (Inr []) (Inl ''connection lost'')
        (Inl ''connection lost'') (Inr []))
     ''asst'' ''hello'' initial =
   Some (Inl ''connection lost'',
         \<lparr>outside = 0,
          trace = [RunsList ''thread_old'', MessagesCreate ''thread_old'' ''hello'',
                   PrintSystemMessage ''An error occurred: connection lost'',
                   PrintSystemMessage ''Starting a new conversation...'',
                   ClearThreadId, ThreadsCreate],
          thread_id = ''thread_old'', thread_file = None\<rparr>)"
  by (simp add: process_user_input_def process_user_input_try_def lower_hello turn_defs
        reset_thread_def create_new_thread_def world_defs scripted_defs)




text \<open>
  Claim C9. \<^verbatim>\<open>cancel_active_runs\<close> never raises. When listing the runs raises, or a cancel
  request raises, the exception is caught and printed and the method returns normally; the
  turn then posts the message (in the world the failed cancellation left) and, when the post
  succeeds, creates the new run.
\<close>

theorem cancel_active_runs_never_raises:
  "fst (cancel_active_runs R w) = Inr () \<and>
   (\<forall>x e1. runs_list R (thread_id w) (outside w) = (Inl x, e1) \<longrightarrow>
      cancel_active_runs_try R w = (Inl x, advance e1 [RunsList (thread_id w)] w)) \<and>
   (\<forall>x w1. cancel_active_runs_try R w = (Inl x, w1) \<longrightarrow>
      cancel_active_runs R w = (Inr (), print_system_message (''Error canceling runs: '' @ x) w1) \<and>
      (\<forall>aid u e2 res e3.
         messages_create R (thread_id w) u (outside w1) = (Inr (), e2) \<longrightarrow>
         runs_create R (thread_id w) aid e2 = (res, e3) \<longrightarrow>
         process_user_input_start R aid u w =
           (res, advance e3 [PrintSystemMessage (''Error canceling runs: '' @ x),
                             MessagesCreate (thread_id w) u, RunsCreate (thread_id w) aid] w1)))"
proof (intro conjI allI impI)
  show "fst (cancel_active_runs R w) = Inr ()"
    by (simp add: cancel_active_runs_def split: prod.splits sum.splits)
next
  fix x e1
  assume "runs_list R (thread_id w) (outside w) = (Inl x, e1)"
  then show "cancel_active_runs_try R w = (Inl x, advance e1 [RunsList (thread_id w)] w)"
    by (simp add: cancel_active_runs_try_def world_defs)
next
  fix x w1
  assume "cancel_active_runs_try R w = (Inl x, w1)"
  then show "cancel_active_runs R w =
               (Inr (), print_system_message (''Error canceling runs: '' @ x) w1)"
    by (simp add: cancel_active_runs_def)
next
  fix x w1 aid u e2 res e3
  assume block: "cancel_active_runs_try R w = (Inl x, w1)"
    and post: "messages_create R (thread_id w) u (outside w1) = (Inr (), e2)"
    and create: "runs_create R (thread_id w) aid e2 = (res, e3)"
  from cancel_try_keeps [OF block] have tid: "thread_id w1 = thread_id w" by simp
  from block post create tid
  show "process_user_input_start R aid u w =
           (res, advance e3 [PrintSystemMessage (''Error canceling runs: '' @ x),
                             MessagesCreate (thread_id w) u, RunsCreate (thread_id w) aid] w1)"
    by (simp add: process_user_input_start_def cancel_active_runs_def world_defs)
qed

text \<open>
  A turn in which listing the runs raises.
\<close>

theorem cancel_active_runs_never_raises_witness:
  "process_user_input_start
     (scripted (\<lambda>t. Inr (mk_run ''run_new'' ''queued'')) (Inr []) (Inr ''thread_new'') (Inr ())
        (Inl ''connection lost''))
     ''asst'' ''hello'' initial =
   (Inr (mk_run ''run_new'' ''queued''),
    advance 0 [RunsList ''thread_old'', PrintSystemMessage ''Error canceling runs: connection lost'',
               MessagesCreate ''thread_old'' ''hello'', RunsCreate ''thread_old'' ''asst''] initial)"
proof -
  let ?R = "scripted (\<lambda>t. Inr (mk_run ''run_new'' ''queued'')) (Inr []) (Inr ''thread_new'') (Inr ())
        (Inl ''connection lost'')"
  let ?w1 = "advance 0 [RunsList (thread_id initial)] initial"
  have listing: "runs_list ?R (thread_id initial) (outside initial) = (Inl ''connection lost'', 0)"
    by (simp add: scripted_defs)
  with cancel_active_runs_never_raises [of ?R initial]
  have block: "cancel_active_runs_try ?R initial = (Inl ''connection lost'', ?w1)"
    by blast
  have post: "messages_create ?R (thread_id initial) ''hello'' (outside ?w1) = (Inr (), 0)"
    by (simp add: world_defs scripted_defs)
  have create: "runs_create ?R (thread_id initial) ''asst'' 0 = (Inr (mk_run ''run_new'' ''queued''), 0)"
    by (simp add: scripted_defs)
  from cancel_active_runs_never_raises [of ?R initial] block post create
  have "process_user_input_start ?R ''asst'' ''hello'' initial =
          (Inr (mk_run ''run_new'' ''queued''),
           advance 0 [PrintSystemMessage (''Error canceling runs: '' @ ''connection lost''),
                      MessagesCreate (thread_id initial) ''hello'',
                      RunsCreate (thread_id initial) ''asst''] ?w1)"
    by blast
  then show ?thesis
    by (simp add: world_defs initial_def)
qed

section \<open>The sleep at the end of a pass\<close>



end
